theory Spec2Isabelle
  imports
    Complex_Main
    "HOL-Library.Multiset"
    "HOL-Library.Char_ord"
    "HOL-Library.List_Lexorder"
begin

section \<open>Risk dashboard (Dash5.py): data loader, shaped table and view callbacks\<close>

text \<open>
  The program reads a CSV into a pandas frame, checks the required columns, derives five
  risk categories and their mean per row (the table \<open>wide\<close>), and serves callbacks that
  filter, sort and cut that table for three charts.

  Conventions of the embedding.
  \<^item> A float cell is \<open>rat option\<close>: \<open>Some q\<close> is a number (arithmetic is exact, rounding of
    binary floats is not modelled), \<open>None\<close> is pandas' NaN, the value of an empty CSV cell.
  \<^item> Text (column labels, company, year, industry) is \<open>string\<close>, a list of bytes; text
    outside ASCII is its UTF-8 encoding. Byte-wise lexicographic order is Python's order
    on \<open>str\<close>.
  \<^item> A raw row carries the cells the program reads from it, typed as the program uses
    them: text for company, year and industry, floats for \<open>RD_0 .. RD_6\<close>. The labels of
    the frame are kept apart, as read from the header line, because the column check
    works on them alone.
  \<^item> A raised exception is the \<open>Inl\<close> branch of a sum.
\<close>

subsection \<open>Float cells\<close>

type_synonym num = "rat option"





subsection \<open>Errors\<close>

datatype error =
    ValueError "string set"  \<comment> \<open>line 44: the payload is the set \<open>missing\<close> of the message\<close>
  | IndexError               \<comment> \<open>a positional read past the end (\<open>iloc[0]\<close>, \<open>YEARS[-1]\<close>, \<open>r[0]\<close>)\<close>

subsection \<open>Loading and shaping (lines 38 to 64)\<close>



record raw_row =
  company_cell :: string
  year_cell :: string
  industry_cell :: string
  RD_0 :: num
  RD_1 :: num
  RD_2 :: num
  RD_3 :: num
  RD_4 :: num
  RD_5 :: num
  RD_6 :: num

record raw_frame =
  columns :: "string list"
  rows :: "raw_row list"



definition industry_default :: string where
  "industry_default =
     [CHR 0xE6, CHR 0x9C, CHR 0xAA, CHR 0xE6, CHR 0x8C, CHR 0x87, CHR 0xE5, CHR 0xAE, CHR 0x9A]"

record wide_row =
  company :: string
  year :: string
  industry :: string
  market :: num
  credit :: num
  operational :: num
  legal_compliance :: num
  technical :: num
  composite :: num

text \<open>
  The columns a chart can read: the five categories of \<open>CATS\<close> and the composite
  (the values of the control \<open>compare_metric\<close>).
\<close>

datatype metric = Market | Credit | Operational | Legal_compliance | Technical | Composite

fun col :: "metric \<Rightarrow> wide_row \<Rightarrow> num" where
  "col Market r = market r"
| "col Credit r = credit r"
| "col Operational r = operational r"
| "col Legal_compliance r = legal_compliance r"
| "col Technical r = technical r"
| "col Composite r = composite r"

definition CATS :: "metric list" where
  "CATS = [Market, Credit, Operational, Legal_compliance, Technical]"




subsection \<open>Frame operations used by the callbacks\<close>

text \<open>
  \<open>DataFrame.sort_values(by, ascending)\<close> on one float column. pandas splits the rows into
  those whose key is a number and those whose key is NaN, hands the numbers to a sorting
  routine (\<open>kind\<close>, by default numpy's quicksort), and puts the NaN rows last in their
  original order. For a descending sort it reverses the rows before and after the routine.
  The routine is not part of the program: it is the parameter \<open>k\<close>, which sorts keyed
  rows by ascending key. All the program may rely on is \<open>sorts k\<close>: the routine returns
  a sorted rearrangement of what it is given. (pandas documents only \<open>mergesort\<close> and
  \<open>stable\<close> as keeping the order of equal keys; the program asks for neither.)
\<close>

type_synonym kind = "(rat \<times> wide_row) list \<Rightarrow> (rat \<times> wide_row) list"

definition sorts :: "kind \<Rightarrow> bool" where
  "sorts k \<longleftrightarrow> (\<forall>xs. mset (k xs) = mset xs \<and> sorted (map fst (k xs)))"


definition keyed :: "metric \<Rightarrow> wide_row list \<Rightarrow> (rat \<times> wide_row) list" where
  "keyed m df = map (\<lambda>r. (the (col m r), r)) (filter (\<lambda>r. col m r \<noteq> None) df)"

definition arrange :: "kind \<Rightarrow> bool \<Rightarrow> (rat \<times> wide_row) list \<Rightarrow> (rat \<times> wide_row) list" where
  "arrange k ascending xs = (if ascending then k xs else rev (k (rev xs)))"

definition sort_values :: "kind \<Rightarrow> metric \<Rightarrow> bool \<Rightarrow> wide_row list \<Rightarrow> wide_row list" where
  "sort_values k m ascending df =
     (let non_nans = keyed m df;
          nans = filter (\<lambda>r. col m r = None) df
      in map snd (arrange k ascending non_nans) @ nans)"

text \<open>
  What ``sorted by the column, NaN last'' means for two neighbouring cells, for a
  descending and for an ascending sort.
\<close>

fun before_desc :: "num \<Rightarrow> num \<Rightarrow> bool" where
  "before_desc _ None = True"
| "before_desc None (Some _) = False"
| "before_desc (Some a) (Some b) = (b \<le> a)"


text \<open>Two sorting routines: insertion sort, which is stable, and one that is not.\<close>

definition stable_kind :: kind where
  "stable_kind xs = sort_key fst xs"

definition unstable_kind :: kind where
  "unstable_kind xs = rev (sort_key (\<lambda>p. - fst p) xs)"

text \<open>\<open>head(n)\<close> is the slice \<open>[:n]\<close>: a negative \<open>n\<close> drops the last \<open>-n\<close> rows.\<close>

definition head :: "int \<Rightarrow> 'a list \<Rightarrow> 'a list" where
  "head n xs = (if 0 \<le> n then take (nat n) xs else take (length xs - nat (- n)) xs)"

text \<open>A read at position 0 (\<open>iloc[0]\<close>, \<open>r[0]\<close>) raises on an empty sequence.\<close>

fun item0 :: "'a list \<Rightarrow> error + 'a" where
  "item0 [] = Inl IndexError"
| "item0 (x # _) = Inr x"


text \<open>\<open>unique()\<close>: the distinct values in order of first appearance.\<close>

fun unique_from :: "'a list \<Rightarrow> 'a list \<Rightarrow> 'a list" where
  "unique_from seen [] = []"
| "unique_from seen (x # xs) =
     (if x \<in> set seen then unique_from seen xs else x # unique_from (x # seen) xs)"

definition unique :: "'a list \<Rightarrow> 'a list" where
  "unique xs = unique_from [] xs"

definition rows_of_year :: "wide_row list \<Rightarrow> string \<Rightarrow> wide_row list" where
  "rows_of_year wide y = filter (\<lambda>r. year r = y) wide"

subsection \<open>\<open>top_companies\<close> (lines 66 to 68)\<close>

definition top_companies :: "kind \<Rightarrow> wide_row list \<Rightarrow> string \<Rightarrow> int \<Rightarrow> string list" where
  "top_companies k wide y n =
     (let dfy = sort_values k Composite False (rows_of_year wide y)
      in map company (head n dfy))"


subsection \<open>Colours\<close>

definition RED :: string where "RED = ''#C25759''"

record theme =
  background :: string
  text_color :: string

definition theme_colors :: "bool \<Rightarrow> theme" where
  "theme_colors is_dark =
     (if is_dark then \<lparr> background = ''#2E2E2E'', text_color = ''white'' \<rparr>
      else \<lparr> background = ''white'', text_color = ''black'' \<rparr>)"

subsection \<open>The year cascade \<open>_options_by_year\<close> (lines 171 to 179)\<close>

text \<open>A dropdown option is the pair of its label and its value.\<close>

type_synonym dd_option = "string \<times> string"

record year_outputs =
  company_options :: "dd_option list"
  company_value :: "string option"
  industry_options :: "dd_option list"
  industry_value :: "string option"
  compare_options :: "dd_option list"
  compare_value :: "string list"

text \<open>Line 175: what the cascade returns for a year without rows.\<close>

definition no_outputs :: year_outputs where
  "no_outputs =
     \<lparr> company_options = [], company_value = None, industry_options = [],
       industry_value = None, compare_options = [], compare_value = [] \<rparr>"

definition options_by_year :: "kind \<Rightarrow> wide_row list \<Rightarrow> string \<Rightarrow> error + year_outputs" where
  "options_by_year k wide y =
     (let dfy = rows_of_year wide y;
          opts = map (\<lambda>c. (c, c)) (unique (map company dfy))
      in if dfy = [] then Inr no_outputs
         else
           (case item0 (map company (sort_values k Composite False dfy)) of
              Inl e \<Rightarrow> Inl e
            | Inr default_company \<Rightarrow>
                (let default_compare = top_companies k wide y (min 8 (int (length dfy)));
                     industry_opts = map (\<lambda>i. (i, i)) (unique (map industry dfy))
                 in Inr \<lparr> company_options = opts, company_value = Some default_company,
                          industry_options = industry_opts, industry_value = None,
                          compare_options = opts, compare_value = default_compare \<rparr>)))"

subsection \<open>The radar chart \<open>_radar\<close> (lines 188 to 215)\<close>

text \<open>
  The company control holds no value (\<open>None\<close>) until the cascade has set it; no row has
  that company. The title is kept as the values it is formatted from.
\<close>

record radar_figure =
  radar_r :: "num list"
  radar_theta :: "metric list"
  radar_name :: "string option"
  radar_line_color :: string
  radar_title :: "string option \<times> string"
  radar_tick_color :: string
  radar_paper_bgcolor :: string
  radar_font_color :: string

definition radar :: "wide_row list \<Rightarrow> string \<Rightarrow> string option \<Rightarrow> bool \<Rightarrow> error + radar_figure" where
  "radar wide y c is_dark =
     (let th = theme_colors is_dark;
          dfy = filter (\<lambda>x. year x = y \<and> Some (company x) = c) wide
      in case (if dfy = [] then Inr (replicate (length CATS) (Some 0))
               else (case item0 dfy of
                       Inl e \<Rightarrow> Inl e
                     | Inr row \<Rightarrow> Inr (map (\<lambda>m. col m row) CATS))) of
           Inl e \<Rightarrow> Inl e
         | Inr r \<Rightarrow>
             (case item0 CATS of
                Inl e \<Rightarrow> Inl e
              | Inr cat0 \<Rightarrow>
                  (case item0 r of
                     Inl e \<Rightarrow> Inl e
                   | Inr r0 \<Rightarrow>
                       Inr \<lparr> radar_r = r @ [r0],
                             radar_theta = CATS @ [cat0],
                             radar_name = c,
                             radar_line_color = RED,
                             radar_title = (c, y),
                             radar_tick_color = text_color th,
                             radar_paper_bgcolor = background th,
                             radar_font_color = text_color th \<rparr>)))"

subsection \<open>The comparison bar chart \<open>_bars\<close> (lines 225 to 252)\<close>









subsection \<open>The heatmap \<open>_heatmap\<close> (lines 260 to 276)\<close>



subsection \<open>The themed page \<open>toggle_theme\<close> (lines 98 to 159)\<close>





subsection \<open>Example inputs\<close>


definition spec_wide :: "wide_row list" where
  "spec_wide =
     [\<lparr> company = ''A'', year = ''2021'', industry = industry_default,
        market = Some 1, credit = Some 2, operational = Some 9,
        legal_compliance = Some 4, technical = Some 12, composite = Some (28 / 5) \<rparr>]"




text \<open>
  A table with two years and two rows of equal composite in 2021; each row has its five
  categories equal, so that its composite is their mean.
\<close>

definition flat_row :: "string \<Rightarrow> string \<Rightarrow> string \<Rightarrow> rat \<Rightarrow> wide_row" where
  "flat_row c y i q =
     \<lparr> company = c, year = y, industry = i,
       market = Some q, credit = Some q, operational = Some q,
       legal_compliance = Some q, technical = Some q, composite = Some q \<rparr>"

definition tie_wide :: "wide_row list" where
  "tie_wide =
     [flat_row ''A'' ''2021'' ''bank'' 5,
      flat_row ''C'' ''2020'' ''bank'' 9,
      flat_row ''B'' ''2021'' ''steel'' 5,
      flat_row ''D'' ''2021'' ''bank'' 7]"



section \<open>Auxiliary facts\<close>

subsection \<open>The loader\<close>








subsection \<open>Sorting a frame\<close>

lemma sort_values_alt:
  "sort_values k m asc df = map snd (arrange k asc (keyed m df)) @ filter (\<lambda>r. col m r = None) df"
  by (simp add: sort_values_def Let_def)

lemma sorts_mset: "sorts k \<Longrightarrow> mset (k xs) = mset xs"
  by (simp add: sorts_def)

lemma sorts_sorted: "sorts k \<Longrightarrow> sorted (map fst (k xs))"
  by (simp add: sorts_def)

lemma arrange_mset: "sorts k \<Longrightarrow> mset (arrange k asc xs) = mset xs"
  by (simp add: arrange_def sorts_mset)

lemma arrange_set: "sorts k \<Longrightarrow> set (arrange k asc xs) = set xs"
  by (metis arrange_mset set_mset_mset)


lemma arrange_desc: "sorts k \<Longrightarrow> sorted_wrt (\<lambda>a b. b \<le> a) (map fst (arrange k False xs))"
proof -
  assume "sorts k"
  then have "sorted (map fst (k (rev xs)))" by (rule sorts_sorted)
  then have "sorted_wrt (\<lambda>a b. b \<le> a) (rev (map fst (k (rev xs))))"
    by (simp add: sorted_wrt_rev)
  then show ?thesis by (simp add: arrange_def rev_map)
qed

lemma keyed_snd: "map snd (keyed m df) = filter (\<lambda>r. col m r \<noteq> None) df"
  by (simp add: keyed_def comp_def)

lemma keyed_col: "p \<in> set (keyed m df) \<Longrightarrow> col m (snd p) = Some (fst p)"
  by (auto simp: keyed_def)

lemma keyed_cols: "set ps \<subseteq> set (keyed m df) \<Longrightarrow> map (col m) (map snd ps) = map Some (map fst ps)"
  by (induction ps) (auto dest: keyed_col)

lemma sort_values_mset: 
  assumes "sorts k" shows "mset (sort_values k m asc df) = mset df"
proof -
  have "mset (map snd (arrange k asc (keyed m df))) = mset (map snd (keyed m df))"
    using arrange_mset [OF assms, of asc "keyed m df"] by (metis mset_map)
  then show ?thesis
    by (simp add: sort_values_alt keyed_snd)
qed

lemma sort_values_set: "sorts k \<Longrightarrow> set (sort_values k m asc df) = set df"
  by (metis sort_values_mset set_mset_mset)

lemma sort_values_length: "sorts k \<Longrightarrow> length (sort_values k m asc df) = length df"
  by (metis sort_values_mset size_mset)

lemma sorted_wrt_Some_desc:
  "sorted_wrt before_desc (map Some qs) = sorted_wrt (\<lambda>a b. b \<le> a) qs"
  by (simp add: sorted_wrt_map)


lemma nans_sorted_desc: "sorted_wrt before_desc (map (col m) (filter (\<lambda>r. col m r = None) df))"
  by (induction df) auto


lemma sort_values_desc:
  assumes "sorts k"
  shows "sorted_wrt before_desc (map (col m) (sort_values k m False df))"
proof -
  let ?ps = "arrange k False (keyed m df)"
  have sub: "set ?ps \<subseteq> set (keyed m df)" using arrange_set [OF assms] by simp
  have "sorted_wrt before_desc (map (col m) (map snd ?ps))"
    unfolding keyed_cols [OF sub] sorted_wrt_Some_desc by (rule arrange_desc [OF assms])
  then show ?thesis
    by (auto simp: sort_values_alt sorted_wrt_append nans_sorted_desc simp del: map_map)
qed


lemma sorts_stable_kind: "sorts stable_kind"
  by (simp add: sorts_def stable_kind_def)


lemma head_nonneg: "0 \<le> n \<Longrightarrow> head n xs = take (nat n) xs"
  by (simp add: head_def)

lemma col_Composite: "col Composite = composite"
  by (rule ext) simp

lemma top_companies_alt:
  "top_companies k wide y n = map company (head n (sort_values k Composite False (rows_of_year wide y)))"
  by (simp add: top_companies_def Let_def)





lemma keyed_simps:
  "keyed m [] = []"
  "keyed m (r # rs) = (case col m r of None \<Rightarrow> keyed m rs | Some q \<Rightarrow> (q, r) # keyed m rs)"
  by (simp_all add: keyed_def split: option.split)

lemmas table_eval =
  rows_of_year_def sort_values_def keyed_simps arrange_def stable_kind_def unstable_kind_def
  flat_row_def head_def top_companies_def Let_def

subsection \<open>The year cascade\<close>

lemma set_unique_from: "set (unique_from seen xs) = set xs - set seen"
  by (induction xs arbitrary: seen) auto

lemma distinct_unique_from: "distinct (unique_from seen xs)"
  by (induction xs arbitrary: seen) (auto simp: set_unique_from)

lemma set_unique: "set (unique xs) = set xs"
  by (simp add: unique_def set_unique_from)

lemma distinct_unique: "distinct (unique xs)"
  by (simp add: unique_def distinct_unique_from)

lemma unique_Nil: "unique [] = []"
  by (simp add: unique_def)

lemma before_desc_refl: "before_desc a a"
  by (cases a) auto

lemma sort_values_Nil_iff: "sorts k \<Longrightarrow> (sort_values k m asc df = []) = (df = [])"
  by (metis sort_values_length length_0_conv)

lemma head_desc_greatest:
  assumes "sorted_wrt before_desc (map f (x # xs))" and "r \<in> set (x # xs)"
  shows "before_desc (f x) (f r)"
  using assms by (auto simp: before_desc_refl)

lemma top8_all:
  assumes "sorts k"
  shows "top_companies k wide y (min 8 (int (length (rows_of_year wide y)))) = top_companies k wide y 8"
proof -
  let ?srt = "sort_values k Composite False (rows_of_year wide y)"
  have "length ?srt = length (rows_of_year wide y)" by (rule sort_values_length [OF assms])
  then have "take (nat (min 8 (int (length (rows_of_year wide y))))) ?srt = take 8 ?srt"
    by (cases "8 \<le> length (rows_of_year wide y)") (simp_all add: min_def)
  then show ?thesis
    by (simp add: top_companies_alt head_nonneg)
qed

lemma options_by_year_empty:
  "rows_of_year wide y = [] \<Longrightarrow> options_by_year k wide y = Inr no_outputs"
  by (simp add: options_by_year_def)

lemma options_by_year_rows:
  assumes "sorts k" and "sort_values k Composite False (rows_of_year wide y) = x # xs"
  shows "options_by_year k wide y =
           Inr \<lparr> company_options = map (\<lambda>c. (c, c)) (unique (map company (rows_of_year wide y))),
                 company_value = Some (company x),
                 industry_options = map (\<lambda>i. (i, i)) (unique (map industry (rows_of_year wide y))),
                 industry_value = None,
                 compare_options = map (\<lambda>c. (c, c)) (unique (map company (rows_of_year wide y))),
                 compare_value = top_companies k wide y 8 \<rparr>"
proof -
  have "rows_of_year wide y \<noteq> []"
    using assms sort_values_Nil_iff [OF assms(1), of Composite False "rows_of_year wide y"] by simp
  then show ?thesis
    using assms(2) by (simp add: options_by_year_def Let_def top8_all [OF assms(1)])
qed

lemma option_values: "snd ` set (map (\<lambda>c. (c, c)) (unique xs)) = set xs"
  by (simp add: image_image set_unique)

lemma option_distinct: "distinct (map (\<lambda>c. (c, c)) (unique xs))"
  by (simp add: distinct_map distinct_unique inj_on_def)

lemmas cascade_eval = options_by_year_def unique_def no_outputs_def

subsection \<open>The charts and the page\<close>





lemma radar_Inr:
  "radar wide y c d =
     Inr \<lparr> radar_r =
             (case filter (\<lambda>x. year x = y \<and> Some (company x) = c) wide of
                [] \<Rightarrow> [Some 0, Some 0, Some 0, Some 0, Some 0, Some 0]
              | row # _ \<Rightarrow> [market row, credit row, operational row, legal_compliance row,
                            technical row, market row]),
           radar_theta = [Market, Credit, Operational, Legal_compliance, Technical, Market],
           radar_name = c,
           radar_line_color = RED,
           radar_title = (c, y),
           radar_tick_color = text_color (theme_colors d),
           radar_paper_bgcolor = background (theme_colors d),
           radar_font_color = text_color (theme_colors d) \<rparr>"
  by (cases "filter (\<lambda>x. year x = y \<and> Some (company x) = c) wide")
     (simp_all add: radar_def CATS_def Let_def)

lemma theme_light: "theme_colors False = \<lparr> background = ''white'', text_color = ''black'' \<rparr>"
  by (simp add: theme_colors_def)

lemma theme_dark: "theme_colors True = \<lparr> background = ''#2E2E2E'', text_color = ''white'' \<rparr>"
  by (simp add: theme_colors_def)

















section \<open>The claims\<close>

subsection \<open>C3: the composite column\<close>




subsection \<open>C4: the five categories\<close>



subsection \<open>C5: the column check\<close>



subsection \<open>C1: \<open>top_companies\<close>\<close>




subsection \<open>C6: the year cascade\<close>

text \<open>
  C6. For every year the cascade returns without raising. The company options and the
  comparison options are the distinct companies of the rows of that year, the industry
  options their distinct industries; the industry selection is reset to none, the
  comparison selection to \<open>top_companies\<close> with \<open>n = 8\<close>, and the company selection to the
  company of the first row by descending composite, a row of that year no row of the year
  has a greater composite than. For a year without rows everything returned is empty or
  none.
\<close>

theorem options_by_year_spec:
  assumes "sorts k"
  shows "\<exists>out. options_by_year k wide y = Inr out
     \<and> company_options out = map (\<lambda>c. (c, c)) (unique (map company (rows_of_year wide y)))
     \<and> industry_options out = map (\<lambda>i. (i, i)) (unique (map industry (rows_of_year wide y)))
     \<and> compare_options out = company_options out
     \<and> snd ` set (company_options out) = company ` set (rows_of_year wide y)
     \<and> snd ` set (industry_options out) = industry ` set (rows_of_year wide y)
     \<and> distinct (company_options out) \<and> distinct (industry_options out)
     \<and> industry_value out = None
     \<and> compare_value out = top_companies k wide y 8
     \<and> company_value out =
           (case sort_values k Composite False (rows_of_year wide y) of
              [] \<Rightarrow> None | r # _ \<Rightarrow> Some (company r))
     \<and> (rows_of_year wide y \<noteq> [] \<longrightarrow>
           (\<exists>r \<in> set (rows_of_year wide y). company_value out = Some (company r)
               \<and> (\<forall>r' \<in> set (rows_of_year wide y). before_desc (composite r) (composite r'))))
     \<and> (rows_of_year wide y = [] \<longrightarrow> out = no_outputs)"
proof (cases "sort_values k Composite False (rows_of_year wide y)")
  case Nil
  then have empty: "rows_of_year wide y = []"
    using sort_values_Nil_iff [OF assms] by blast
  have "top_companies k wide y 8 = []"
    by (simp add: top_companies_alt Nil head_def)
  moreover have "sort_values k Composite False [] = []"
    using Nil empty by simp
  ultimately show ?thesis
    by (simp add: options_by_year_empty [OF empty] no_outputs_def empty unique_Nil)
next
  case (Cons x xs)
  let ?dfy = "rows_of_year wide y"
  let ?srt = "sort_values k Composite False ?dfy"
  have set_eq: "set ?dfy = set (x # xs)"
    using sort_values_set [OF assms, of Composite False ?dfy] Cons by simp
  then have nonempty: "?dfy \<noteq> []" by auto
  have x_in: "x \<in> set ?dfy" using set_eq by simp
  have "sorted_wrt before_desc (map composite (x # xs))"
    using sort_values_desc [OF assms, of Composite ?dfy] Cons by (simp add: col_Composite)
  then have top: "\<forall>r' \<in> set ?dfy. before_desc (composite x) (composite r')"
    unfolding set_eq by (auto simp: before_desc_refl)
  have best: "\<exists>r \<in> set ?dfy. Some (company x) = Some (company r)
               \<and> (\<forall>r' \<in> set ?dfy. before_desc (composite r) (composite r'))"
    using x_in top by blast
  show ?thesis
    unfolding options_by_year_rows [OF assms Cons]
    using best nonempty
    by (simp add: Cons option_distinct image_image set_unique)
qed

text \<open>The theorem at a year with rows and at a year without.\<close>

theorem options_by_year_spec_witness:
  "sorts stable_kind
   \<and> options_by_year stable_kind tie_wide ''2021'' =
       Inr \<lparr> company_options = [(''A'', ''A''), (''B'', ''B''), (''D'', ''D'')],
             company_value = Some ''D'',
             industry_options = [(''bank'', ''bank''), (''steel'', ''steel'')],
             industry_value = None,
             compare_options = [(''A'', ''A''), (''B'', ''B''), (''D'', ''D'')],
             compare_value = [''D'', ''A'', ''B''] \<rparr>
   \<and> rows_of_year tie_wide ''1999'' = []
   \<and> options_by_year stable_kind tie_wide ''1999'' = Inr no_outputs"
  using options_by_year_spec [OF sorts_stable_kind, of tie_wide "''2021''"]
        options_by_year_spec [OF sorts_stable_kind, of tie_wide "''1999''"]
  by (simp add: sorts_stable_kind cascade_eval table_eval tie_wide_def)

subsection \<open>C10: the defaults are among the options\<close>

text \<open>
  C10. For a year with at least one row the cascade returns a default company that is
  one of the company options, and every company of the default comparison list is one of
  the comparison options.
\<close>

theorem defaults_are_offered:
  assumes "sorts k" and "rows_of_year wide y \<noteq> []"
  shows "\<exists>out c. options_by_year k wide y = Inr out
     \<and> company_value out = Some c
     \<and> c \<in> snd ` set (company_options out)
     \<and> set (compare_value out) \<subseteq> snd ` set (compare_options out)"
proof -
  let ?dfy = "rows_of_year wide y"
  obtain x xs where srt: "sort_values k Composite False ?dfy = x # xs"
    using assms sort_values_Nil_iff [OF assms(1), of Composite False ?dfy]
    by (cases "sort_values k Composite False ?dfy") auto
  have set_eq: "set (x # xs) = set ?dfy"
    using sort_values_set [OF assms(1), of Composite False ?dfy] srt by simp
  have x_in: "company x \<in> company ` set ?dfy"
    using set_eq by auto
  have "set (head 8 (x # xs)) \<subseteq> set ?dfy"
    using set_eq set_take_subset [of 8 "x # xs"] by (simp add: head_def)
  then have cmp: "set (top_companies k wide y 8) \<subseteq> company ` set ?dfy"
    by (auto simp: top_companies_alt srt)
  show ?thesis
    unfolding options_by_year_rows [OF assms(1) srt]
    using x_in cmp by (simp add: image_image set_unique)
qed

text \<open>The theorem at the year 2020 of \<open>tie_wide\<close>.\<close>

theorem defaults_are_offered_witness:
  "sorts stable_kind \<and> rows_of_year tie_wide ''2020'' \<noteq> []
   \<and> (\<exists>out. options_by_year stable_kind tie_wide ''2020'' = Inr out
         \<and> company_value out = Some ''C''
         \<and> ''C'' \<in> snd ` set (company_options out)
         \<and> compare_value out = [''C'']
         \<and> set (compare_value out) \<subseteq> snd ` set (compare_options out))"
proof -
  have rows: "rows_of_year tie_wide ''2020'' \<noteq> []"
    by (simp add: table_eval tie_wide_def)
  from defaults_are_offered [OF sorts_stable_kind rows]
  obtain out c where out: "options_by_year stable_kind tie_wide ''2020'' = Inr out"
    and "company_value out = Some c" "c \<in> snd ` set (company_options out)"
    and "set (compare_value out) \<subseteq> snd ` set (compare_options out)"
    by blast
  moreover have "options_by_year stable_kind tie_wide ''2020'' =
       Inr \<lparr> company_options = [(''C'', ''C'')], company_value = Some ''C'',
             industry_options = [(''bank'', ''bank'')], industry_value = None,
             compare_options = [(''C'', ''C'')], compare_value = [''C''] \<rparr>"
    by (simp add: cascade_eval table_eval tie_wide_def)
  ultimately show ?thesis
    using rows sorts_stable_kind by auto
qed

subsection \<open>C7: the radar chart\<close>

text \<open>
  C7. For every year, company and theme the radar callback returns a figure without
  raising. Its angular axis is the five categories followed by the first one again, its
  radial values are six, the last equal to the first; the first five are the category
  cells of the first row with that year and company, and five zeros when no row has
  them.
\<close>

theorem radar_closed_polygon:
  "\<exists>fig. radar wide y c is_dark = Inr fig
     \<and> radar_theta fig = [Market, Credit, Operational, Legal_compliance, Technical, Market]
     \<and> length (radar_r fig) = 6
     \<and> last (radar_r fig) = hd (radar_r fig)
     \<and> take 5 (radar_r fig) =
          (case filter (\<lambda>x. year x = y \<and> Some (company x) = c) wide of
             [] \<Rightarrow> [Some 0, Some 0, Some 0, Some 0, Some 0]
           | row # _ \<Rightarrow> [market row, credit row, operational row, legal_compliance row,
                         technical row])"
  unfolding radar_Inr
  by (cases "filter (\<lambda>x. year x = y \<and> Some (company x) = c) wide") simp_all

text \<open>
  The theorem at the worked example: the company of the table, a company that is not in
  it, and no company selected.
\<close>

theorem radar_closed_polygon_witness:
  "(\<exists>fig. radar spec_wide ''2021'' (Some ''A'') False = Inr fig
      \<and> radar_r fig = [Some 1, Some 2, Some 9, Some 4, Some 12, Some 1])
   \<and> (\<exists>fig. radar spec_wide ''2021'' (Some ''Z'') False = Inr fig
      \<and> radar_r fig = [Some 0, Some 0, Some 0, Some 0, Some 0, Some 0])
   \<and> (\<exists>fig. radar spec_wide ''2021'' None False = Inr fig
      \<and> radar_r fig = [Some 0, Some 0, Some 0, Some 0, Some 0, Some 0])"
proof -
  obtain f1 where f1: "radar spec_wide ''2021'' (Some ''A'') False = Inr f1"
    using radar_closed_polygon [of spec_wide "''2021''" "Some ''A''" False] by blast
  obtain f2 where f2: "radar spec_wide ''2021'' (Some ''Z'') False = Inr f2"
    using radar_closed_polygon [of spec_wide "''2021''" "Some ''Z''" False] by blast
  obtain f3 where f3: "radar spec_wide ''2021'' None False = Inr f3"
    using radar_closed_polygon [of spec_wide "''2021''" None False] by blast
  from f1 f2 f3 show ?thesis
    by (auto simp: radar_Inr spec_wide_def)
qed

subsection \<open>C8: the comparison bar chart\<close>



subsection \<open>C2: the theme\<close>




end
